theory Spec2Isabelle
  imports Main "HOL-Library.Word"
begin

section \<open>Data model of the donor fund tracker canister\<close>

text \<open>
  The canister is the single TypeScript module \<^verbatim>\<open>src/dfinity_js_backend/src/index.ts\<close>.
  Its Candid records are modelled as records, its variants as datatypes. Every field keeps
  its source name behind the name of its record (\<^verbatim>\<open>donor.donationAmount\<close> is
  \<open>donor_donationAmount\<close>), since the source reuses \<^verbatim>\<open>id\<close>, \<^verbatim>\<open>owner\<close>,
  \<^verbatim>\<open>status\<close> and \<^verbatim>\<open>amount\<close> in several records.

  Values of Candid type \<^verbatim>\<open>nat64\<close> are JavaScript \<^verbatim>\<open>bigint\<close>s in the module: the one
  arithmetic operation of the reservation protocol, \<^verbatim>\<open>donor.donationAmount += reservePrice\<close>,
  is unbounded addition, so these values are natural numbers here.
\<close>

datatype principal = Principal (toText: string)

type_synonym address = "8 word list"

record donorProfile =
  donor_id :: string
  donor_owner :: principal
  donor_name :: string
  donor_phoneNumber :: string
  donor_email :: string
  donor_address :: string
  donor_donationAmount :: nat
  donor_donations :: "string list"
  donor_donationsCount :: nat
  donor_status :: string
  donor_joinedAt :: string

record charity =
  charity_id :: string
  charity_owner :: principal
  charity_name :: string
  charity_phoneNumber :: string
  charity_email :: string
  charity_address :: string
  charity_missionStatement :: string
  charity_totalReceived :: nat
  charity_donationsReceived :: "string list"
  charity_donationsCount :: nat
  charity_status :: string
  charity_registeredAt :: string

datatype campaignStatus =
    CampaignActive string
  | CampaignAccepted string
  | CampaignCompleted string
  | CampaignCancelled string
  | CampaignPending string

record campaign =
  campaign_id :: string
  campaign_charityId :: string
  campaign_title :: string
  campaign_description :: string
  campaign_targetAmount :: nat
  campaign_totalReceived :: nat
  campaign_donors :: "string list"
  campaign_status :: campaignStatus
  campaign_creator :: principal
  campaign_startedAt :: string

datatype donationStatus =
    PaymentPending string
  | Completed string
  | Cancelled string

record donation =
  donation_id :: string
  donation_donorId :: string
  donation_charityId :: string
  donation_campaignId :: string
  donation_donator :: principal
  donation_receiver :: principal
  donation_amount :: nat
  donation_status :: donationStatus
  donation_createdAt :: string
  donation_paid_at_block :: "nat option"
  donation_memo :: nat

datatype donationReportStatus =
    ReportPending string
  | ReportCompleted string
  | ReportCancelled string

record donationReport =
  report_id :: string
  report_donorId :: string
  report_charityId :: string
  report_campaignId :: string
  report_campaignTitle :: string
  report_amount :: nat
  report_status :: donationReportStatus
  report_createdAt :: string
  report_paidAt :: "string option"

datatype message =
    Success string
  | Error string
  | NotFound string
  | InvalidPayload string
  | PaymentFailed string
  | PaymentCompleted string

record campaignPayload =
  cpayload_charityId :: string
  cpayload_title :: string
  cpayload_description :: string
  cpayload_targetAmount :: nat

record donationPayload =
  payload_donorId :: string
  payload_charityId :: string
  payload_campaignId :: string
  payload_amount :: nat

text \<open>\<^verbatim>\<open>Result(T, Message)\<close> is a tagged value.\<close>

datatype ('a, 'e) result = Ok 'a | Err 'e

subsection \<open>Storage\<close>

text \<open>
  The six \<^verbatim>\<open>StableBTreeMap\<close>s are maps. \<open>timers\<close> lists the callbacks handed to
  \<^verbatim>\<open>ic.setTimer\<close>, each as its delay and the memo its closure holds.
\<close>

record canister =
  donorProfileStorage :: "string \<rightharpoonup> donorProfile"
  charityProfileStorage :: "string \<rightharpoonup> charity"
  campaignStorage :: "string \<rightharpoonup> campaign"
  persistedReserves :: "principal \<rightharpoonup> donation"
  pendingReserves :: "nat \<rightharpoonup> donation"
  donationReportStorage :: "string \<rightharpoonup> donationReport"
  timers :: "(nat \<times> nat) list"

text \<open>\<^verbatim>\<open>insert\<close> and \<^verbatim>\<open>remove\<close> return the previous value of the key and change the map.\<close>

definition btree_insert :: "('k \<rightharpoonup> 'v) \<Rightarrow> 'k \<Rightarrow> 'v \<Rightarrow> 'v option \<times> ('k \<rightharpoonup> 'v)" where
  "btree_insert m k v = (m k, m(k \<mapsto> v))"

definition btree_remove :: "('k \<rightharpoonup> 'v) \<Rightarrow> 'k \<Rightarrow> 'v option \<times> ('k \<rightharpoonup> 'v)" where
  "btree_remove m k = (m k, m(k := None))"

definition TIMEOUT_PERIOD :: nat where
  "TIMEOUT_PERIOD = 9600"

subsection \<open>Returning and throwing\<close>

text \<open>
  What can leave a method instead of its result: an \<^verbatim>\<open>Error\<close> the module throws itself, the
  rejection of an awaited call to another canister, and the refusal of the Candid encoder
  of \<^verbatim>\<open>nat64\<close> to encode a \<^verbatim>\<open>bigint\<close> outside the type, with the value it was given.
\<close>

datatype exception =
    JsError string
  | CallRejected string
  | Nat64OutOfRange nat

text \<open>
  An update method either returns its result or throws. Both come with the state the module
  has reached at that point: what it wrote before a throw is written.
\<close>

datatype 'a outcome = Returned 'a | Thrown exception canister


text \<open>
  A record handed to \<^verbatim>\<open>insert\<close> is encoded by its Candid type. \<^verbatim>\<open>donationAmount\<close> is
  declared \<^verbatim>\<open>nat64\<close>, and the encoder accepts the values below \<open>2 ^ 64\<close> only. Method
  arguments and stored records have been through the same encoding; the one \<^verbatim>\<open>nat64\<close>
  value the reservation protocol computes itself is the donor's new \<^verbatim>\<open>donationAmount\<close>.
\<close>

definition nat64_encodable :: "nat \<Rightarrow> bool" where
  "nat64_encodable n = (n < 2 ^ 64)"

subsection \<open>The ledger and the ambient values\<close>

text \<open>
  Modelled from the spec: the block, transaction and operation types of the ledger canister
  are declared by the \<^verbatim>\<open>azle/canisters/ledger\<close> bindings, which are not part of the
  repository. A block holds one transaction with a memo and an optional operation; a transfer
  operation has \<^verbatim>\<open>from\<close>, \<^verbatim>\<open>to\<close> and \<^verbatim>\<open>amount.e8s\<close>. \<open>OtherOperation\<close> stands for
  the operations that are no transfer, where \<^verbatim>\<open>operation.Transfer\<close> is \<^verbatim>\<open>undefined\<close>.
\<close>

record transfer =
  transfer_from :: address
  transfer_to :: address
  transfer_amount_e8s :: nat

datatype operation = Transfer transfer | OtherOperation

text \<open>An awaited call to another canister is answered, or rejected with a message.\<close>

datatype 'a callResult = Answered 'a | Rejected string

record ledgerTransaction =
  tx_memo :: nat
  tx_operation :: "operation option"

record ledgerBlock =
  block_transaction :: ledgerTransaction

text \<open>\<^verbatim>\<open>operation.Transfer\<close>: the payload of a transfer, \<^verbatim>\<open>undefined\<close> (\<open>None\<close>) otherwise.\<close>

fun operation_Transfer :: "operation \<Rightarrow> transfer option" where
  "operation_Transfer (Transfer t) = Some t"
| "operation_Transfer OtherOperation = None"

text \<open>What \<^verbatim>\<open>hash(input: any)\<close> is applied to: a string, a binary address, or \<^verbatim>\<open>undefined\<close>.\<close>

datatype hashInput = HashText string | HashAddress address | HashUndefined

text \<open>
  Everything a call reads from outside the module: the caller and the time of the Internet
  Computer, the values \<^verbatim>\<open>uuidv4()\<close> and \<^verbatim>\<open>new Date().toISOString()\<close> yield in this call,
  the outcome of the call \<^verbatim>\<open>query_blocks({start, length})\<close> to the ledger canister (the
  \<^verbatim>\<open>blocks\<close> of its answer, or its rejection),
  and the two library functions \<^verbatim>\<open>hashCode().value\<close> and \<^verbatim>\<open>binaryAddressFromPrincipal\<close>.
\<close>

record env =
  ic_caller :: principal
  ic_time :: nat
  uuidv4 :: string
  toISOString :: string
  query_blocks :: "nat \<Rightarrow> nat \<Rightarrow> ledgerBlock list callResult"
  hashCode_value :: "hashInput \<Rightarrow> int"
  binaryAddressFromPrincipal :: "principal \<Rightarrow> nat \<Rightarrow> address"

section \<open>Helper functions\<close>

text \<open>The decimal text of a \<^verbatim>\<open>bigint\<close> in a template literal.\<close>

fun string_of_nat :: "nat \<Rightarrow> string" where
  "string_of_nat n =
     (if n < 10 then [char_of (48 + n)]
      else string_of_nat (n div 10) @ [char_of (48 + n mod 10)])"

declare string_of_nat.simps [simp del]

text \<open>\<^verbatim>\<open>hash\<close>: \<^verbatim>\<open>BigInt(Math.abs(hashCode().value(input)))\<close>.\<close>

definition hash :: "env \<Rightarrow> hashInput \<Rightarrow> nat" where
  "hash env input = nat \<bar>hashCode_value env input\<bar>"

text \<open>An optional address as the argument of \<^verbatim>\<open>hash\<close>.\<close>

fun hashInput_of :: "address option \<Rightarrow> hashInput" where
  "hashInput_of None = HashUndefined"
| "hashInput_of (Some a) = HashAddress a"

definition generateCorrelationId :: "env \<Rightarrow> string \<Rightarrow> nat" where
  "generateCorrelationId env bookId =
     (let correlationId =
            bookId @ ''_'' @ toText (ic_caller env) @ ''_'' @ string_of_nat (ic_time env)
      in hash env (HashText correlationId))"

text \<open>
  \<^verbatim>\<open>discardByTimeout\<close> only registers a timer. \<open>discardCallback\<close> is the body of the
  callback it registers, run by the system when the timer fires.
\<close>

definition discardByTimeout :: "nat \<Rightarrow> nat \<Rightarrow> canister \<Rightarrow> canister" where
  "discardByTimeout memo delay s = s\<lparr>timers := timers s @ [(delay, memo)]\<rparr>"


text \<open>
  \<^verbatim>\<open>verifyPaymentInternal\<close> asks the ledger for one block and searches the answer for a
  block that passes the test. The \<^verbatim>\<open>===\<close> comparisons are between \<^verbatim>\<open>bigint\<close>s;
  \<^verbatim>\<open>operation.Transfer?.amount.e8s\<close> is \<^verbatim>\<open>undefined\<close>, and so different from
  \<^verbatim>\<open>amount\<close>, when the operation is no transfer. The call is awaited outside any
  \<^verbatim>\<open>try\<close>: its rejection is thrown on (\<open>Inl\<close>).
\<close>

definition blockMatches :: "env \<Rightarrow> principal \<Rightarrow> nat \<Rightarrow> nat \<Rightarrow> ledgerBlock \<Rightarrow> bool" where
  "blockMatches env receiver amount memo block =
     (case tx_operation (block_transaction block) of
        None \<Rightarrow> False
      | Some operation \<Rightarrow>
          (let senderAddress = binaryAddressFromPrincipal env (ic_caller env) 0;
               receiverAddress = binaryAddressFromPrincipal env receiver 0
           in tx_memo (block_transaction block) = memo \<and>
              hash env (HashAddress senderAddress) =
                hash env (hashInput_of (map_option transfer_from (operation_Transfer operation))) \<and>
              hash env (HashAddress receiverAddress) =
                hash env (hashInput_of (map_option transfer_to (operation_Transfer operation))) \<and>
              Some amount = map_option transfer_amount_e8s (operation_Transfer operation)))"

definition verifyPaymentInternal ::
  "env \<Rightarrow> principal \<Rightarrow> nat \<Rightarrow> nat \<Rightarrow> nat \<Rightarrow> exception + bool" where
  "verifyPaymentInternal env receiver amount block memo =
     (case query_blocks env block 1 of
        Rejected msg \<Rightarrow> Inl (CallRejected msg)
      | Answered blockData \<Rightarrow>
          (let tx = find (blockMatches env receiver amount memo) blockData
           in Inr (case tx of Some _ \<Rightarrow> True | None \<Rightarrow> False)))"

section \<open>Canister methods\<close>

subsection \<open>Campaigns\<close>

text \<open>
  The owner test is \<^verbatim>\<open>campaign.creator !== ic.caller()\<close>. On objects \<^verbatim>\<open>!==\<close> compares
  references, and its operands are the \<^verbatim>\<open>Principal\<close> that \<^verbatim>\<open>get\<close> decodes from the stable
  map and the one \<^verbatim>\<open>ic.caller()\<close> builds: two objects, whatever principals they hold. So
  the test holds for every caller, the creator included.
\<close>

definition strictNotEqual :: "principal \<Rightarrow> principal \<Rightarrow> bool" where
  "strictNotEqual a b = True"

text \<open>\<^verbatim>\<open>{...campaign, ...payload}\<close>: the four payload fields replace the campaign's.\<close>

definition spreadCampaignPayload :: "campaign \<Rightarrow> campaignPayload \<Rightarrow> campaign" where
  "spreadCampaignPayload c payload =
     c\<lparr>campaign_charityId := cpayload_charityId payload,
       campaign_title := cpayload_title payload,
       campaign_description := cpayload_description payload,
       campaign_targetAmount := cpayload_targetAmount payload\<rparr>"

definition updateCampaign ::
  "env \<Rightarrow> string \<Rightarrow> campaignPayload \<Rightarrow> canister \<Rightarrow> ((campaign, message) result \<times> canister) outcome" where
  "updateCampaign env campaignId payload s =
     (case campaignStorage s campaignId of
        None \<Rightarrow>
          Returned (Err (NotFound (''Campaign with id='' @ campaignId @ '' not found'')), s)
      | Some c \<Rightarrow>
          if strictNotEqual (campaign_creator c) (ic_caller env)
          then Returned (Err (Error ''Unauthorized''), s)
          else
            (let updatedCampaign = spreadCampaignPayload c payload;
                 (old, campaigns) = btree_insert (campaignStorage s) campaignId updatedCampaign
             in Returned (Ok updatedCampaign, s\<lparr>campaignStorage := campaigns\<rparr>)))"

definition deleteCampaignById ::
  "env \<Rightarrow> string \<Rightarrow> canister \<Rightarrow> ((unit, message) result \<times> canister) outcome" where
  "deleteCampaignById env campaignId s =
     (case campaignStorage s campaignId of
        None \<Rightarrow>
          Returned (Err (NotFound (''Campaign with id='' @ campaignId @ '' not found'')), s)
      | Some c \<Rightarrow>
          if strictNotEqual (campaign_creator c) (ic_caller env)
          then Returned (Err (Error ''Unauthorized''), s)
          else
            (let (old, campaigns) = btree_remove (campaignStorage s) campaignId
             in Returned (Ok (), s\<lparr>campaignStorage := campaigns\<rparr>)))"

definition completeCampaign ::
  "env \<Rightarrow> string \<Rightarrow> canister \<Rightarrow> ((campaign, message) result \<times> canister) outcome" where
  "completeCampaign env campaignId s =
     (case campaignStorage s campaignId of
        None \<Rightarrow>
          Returned (Err (NotFound (''Campaign with id='' @ campaignId @ '' not found'')), s)
      | Some c \<Rightarrow>
          (let updatedCampaign = c\<lparr>campaign_status := CampaignCompleted ''Completed''\<rparr>;
               (old, campaigns) = btree_insert (campaignStorage s) campaignId updatedCampaign
           in Returned (Ok updatedCampaign, s\<lparr>campaignStorage := campaigns\<rparr>)))"

subsection \<open>Donations\<close>

text \<open>
  \<^verbatim>\<open>reserveDonation\<close>. A text is falsy exactly when it is empty. The body of the
  \<^verbatim>\<open>try\<close> block calls only the ambient and library functions of \<open>env\<close>, which are total
  here, so its \<^verbatim>\<open>catch\<close> branch has no counterpart.
\<close>

definition reserveDonation ::
  "env \<Rightarrow> donationPayload \<Rightarrow> canister \<Rightarrow> ((donation, message) result \<times> canister) outcome" where
  "reserveDonation env payload s =
     (if payload_donorId payload = [] \<or> payload_charityId payload = [] \<or>
         payload_campaignId payload = []
      then Returned (Err (InvalidPayload ''Ensure all required fields are provided''), s)
      else
        (case donorProfileStorage s (payload_donorId payload) of
           None \<Rightarrow>
             Returned (Err (NotFound (''Cannot reserve donation: Donor with id='' @
               payload_donorId payload @ '' not found'')), s)
         | Some donor \<Rightarrow>
        (case charityProfileStorage s (payload_charityId payload) of
           None \<Rightarrow>
             Returned (Err (NotFound (''Cannot reserve donation: Charity with id='' @
               payload_charityId payload @ '' not found'')), s)
         | Some charity \<Rightarrow>
        (case campaignStorage s (payload_campaignId payload) of
           None \<Rightarrow>
             Returned (Err (NotFound (''Cannot reserve donation: Campaign with id='' @
               payload_campaignId payload @ '' not found'')), s)
         | Some campaign \<Rightarrow>
             (let donationId = uuidv4 env;
                  donation =
                    \<lparr>donation_id = donationId,
                     donation_donorId = payload_donorId payload,
                     donation_charityId = payload_charityId payload,
                     donation_campaignId = payload_campaignId payload,
                     donation_donator = donor_owner donor,
                     donation_receiver = campaign_creator campaign,
                     donation_amount = payload_amount payload,
                     donation_status = PaymentPending ''PaymentPending'',
                     donation_createdAt = toISOString env,
                     donation_paid_at_block = None,
                     donation_memo = generateCorrelationId env (payload_donorId payload)\<rparr>;
                  (old, pending) =
                    btree_insert (pendingReserves s) (donation_memo donation) donation;
                  s1 = s\<lparr>pendingReserves := pending\<rparr>;
                  s2 = discardByTimeout (donation_memo donation) TIMEOUT_PERIOD s1
              in Returned (Ok donation, s2))))))"

text \<open>
  \<^verbatim>\<open>completeReserveDonation\<close>. The ledger query is the only \<^verbatim>\<open>await\<close>; it reads nothing of
  the canister, and the rest of the body runs in one piece after it. \<^verbatim>\<open>+=\<close> on
  \<^verbatim>\<open>bigint\<close>s is unbounded addition on the object that \<^verbatim>\<open>get\<close> returned; the donor is then
  written back under \<^verbatim>\<open>donor.id\<close>, where the encoder throws if the sum is no \<^verbatim>\<open>nat64\<close>, and
  the completed reserve under the caller.
\<close>

definition completeReserveDonation ::
  "env \<Rightarrow> principal \<Rightarrow> string \<Rightarrow> nat \<Rightarrow> nat \<Rightarrow> nat \<Rightarrow> canister \<Rightarrow>
     ((donation, message) result \<times> canister) outcome" where
  "completeReserveDonation env reservor donorId reservePrice block memo s =
     (case verifyPaymentInternal env reservor reservePrice block memo of
        Inl e \<Rightarrow> Thrown e s
      | Inr paymentVerified \<Rightarrow>
         if \<not> paymentVerified
         then Returned (Err (NotFound
                (''Cannot complete the donation reserve: cannot verify the payment, memo='' @
                 string_of_nat memo)), s)
         else
           (let (pendingReserveOpt, pending) = btree_remove (pendingReserves s) memo;
                s1 = s\<lparr>pendingReserves := pending\<rparr>
            in case pendingReserveOpt of
                 None \<Rightarrow>
                   Returned (Err (NotFound
                     (''Cannot complete the donation reserve: there is no pending reserve with id='' @
                      donorId)), s1)
               | Some reserve \<Rightarrow>
                   (let updatedReserve =
                          reserve\<lparr>donation_status := Completed ''COMPLETED'',
                                  donation_paid_at_block := Some block\<rparr>
                    in case donorProfileStorage s1 donorId of
                         None \<Rightarrow>
                           Thrown (JsError (''Donor with id='' @ donorId @ '' not found'')) s1
                       | Some donor0 \<Rightarrow>
                           (let donor =
                                  donor0\<lparr>donor_donationAmount :=
                                           donor_donationAmount donor0 + reservePrice\<rparr>
                            in if \<not> nat64_encodable (donor_donationAmount donor)
                               then Thrown (Nat64OutOfRange (donor_donationAmount donor)) s1
                               else
                                 (let (oldDonor, donors) =
                                        btree_insert (donorProfileStorage s1) (donor_id donor) donor;
                                      s2 = s1\<lparr>donorProfileStorage := donors\<rparr>;
                                      (oldReserve, persisted) =
                                        btree_insert (persistedReserves s2) (ic_caller env)
                                          updatedReserve;
                                      s3 = s2\<lparr>persistedReserves := persisted\<rparr>
                                  in Returned (Ok updatedReserve, s3))))))"

text \<open>\<^verbatim>\<open>verifyPayment\<close> is a query method: it returns the boolean or throws what the helper throws.\<close>

definition verifyPayment ::
  "env \<Rightarrow> principal \<Rightarrow> nat \<Rightarrow> nat \<Rightarrow> nat \<Rightarrow> exception + bool" where
  "verifyPayment env receiver amount block memo =
     verifyPaymentInternal env receiver amount block memo"

section \<open>Example data\<close>

text \<open>
  One donor, one charity and one campaign, a ledger whose block 5 holds a transfer, whose
  block 8 holds no operation and whose block 9 cannot be queried, and library functions small
  enough to evaluate. The theorems below are instantiated on them.
\<close>

definition alice :: principal where "alice = Principal ''alice''"
definition bob :: principal where "bob = Principal ''bob''"
definition carol :: principal where "carol = Principal ''carol''"

definition donorD :: donorProfile where
  "donorD = \<lparr>donor_id = ''D'', donor_owner = alice, donor_name = ''Dee'',
     donor_phoneNumber = ''555'', donor_email = ''dee@example.org'', donor_address = ''1 Main St'',
     donor_donationAmount = 0, donor_donations = [], donor_donationsCount = 0,
     donor_status = ''Active'', donor_joinedAt = ''2024-01-01T00:00:00.000Z''\<rparr>"

definition charityC :: charity where
  "charityC = \<lparr>charity_id = ''C'', charity_owner = bob, charity_name = ''Care'',
     charity_phoneNumber = ''556'', charity_email = ''care@example.org'',
     charity_address = ''2 Main St'', charity_missionStatement = ''Help'',
     charity_totalReceived = 0, charity_donationsReceived = [], charity_donationsCount = 0,
     charity_status = ''Active'', charity_registeredAt = ''2024-01-01T00:00:00.000Z''\<rparr>"

definition campaignX :: campaign where
  "campaignX = \<lparr>campaign_id = ''X'', campaign_charityId = ''C'', campaign_title = ''Wells'',
     campaign_description = ''Clean water'', campaign_targetAmount = 1000,
     campaign_totalReceived = 0, campaign_donors = [],
     campaign_status = CampaignPending ''Pending'', campaign_creator = bob,
     campaign_startedAt = ''2024-01-02T00:00:00.000Z''\<rparr>"

definition state0 :: canister where
  "state0 = \<lparr>donorProfileStorage = [''D'' \<mapsto> donorD],
     charityProfileStorage = [''C'' \<mapsto> charityC],
     campaignStorage = [''X'' \<mapsto> campaignX],
     persistedReserves = Map.empty, pendingReserves = Map.empty,
     donationReportStorage = Map.empty, timers = []\<rparr>"

definition exampleAddress :: "principal \<Rightarrow> nat \<Rightarrow> address" where
  "exampleAddress p subaccount = (if p = alice then [1] else if p = bob then [2] else [3])"

text \<open>A hash that looks at the first byte of an address only, so that addresses collide.\<close>

definition exampleHashCode :: "hashInput \<Rightarrow> int" where
  "exampleHashCode input =
     (case input of
        HashText t \<Rightarrow> - 7
      | HashAddress a \<Rightarrow> (case a of [] \<Rightarrow> 0 | w # ws \<Rightarrow> - int (unat w))
      | HashUndefined \<Rightarrow> 0)"

definition transferBlock :: "address \<Rightarrow> address \<Rightarrow> nat \<Rightarrow> ledgerBlock" where
  "transferBlock src dst e8s =
     \<lparr>block_transaction = \<lparr>tx_memo = 7, tx_operation = Some (Transfer
        \<lparr>transfer_from = src, transfer_to = dst, transfer_amount_e8s = e8s\<rparr>)\<rparr>\<rparr>"

definition noOperationBlock :: ledgerBlock where
  "noOperationBlock = \<lparr>block_transaction = \<lparr>tx_memo = 7, tx_operation = None\<rparr>\<rparr>"

definition exampleLedger :: "ledgerBlock \<Rightarrow> nat \<Rightarrow> nat \<Rightarrow> ledgerBlock list callResult" where
  "exampleLedger b start len =
     (if start = 5 \<and> len = 1 then Answered [b]
      else if start = 8 \<and> len = 1 then Answered [noOperationBlock]
      else if start = 9 then Rejected ''ledger unavailable''
      else Answered [])"

definition envWith :: "principal \<Rightarrow> ledgerBlock \<Rightarrow> env" where
  "envWith who b =
     \<lparr>ic_caller = who, ic_time = 1, uuidv4 = ''u-1'', toISOString = ''2024-01-03T00:00:00.000Z'',
      query_blocks = exampleLedger b, hashCode_value = exampleHashCode,
      binaryAddressFromPrincipal = exampleAddress\<rparr>"

text \<open>Block 5 pays \<open>e8s\<close> from \<open>alice\<close>'s address to \<open>bob\<close>'s.\<close>

definition exampleEnv :: "principal \<Rightarrow> nat \<Rightarrow> env" where
  "exampleEnv who e8s = envWith who (transferBlock [1] [2] e8s)"

text \<open>Block 5 pays 250 from \<open>carol\<close>'s address to \<open>alice\<close>'s, and \<open>carol\<close> calls.\<close>

definition strangerEnv :: env where
  "strangerEnv = envWith carol (transferBlock [3] [1] 250)"

text \<open>
  Block 5 pays 100 between two addresses that are neither \<open>alice\<close>'s nor \<open>bob\<close>'s but have
  the hash values of theirs, and \<open>alice\<close> calls.
\<close>

definition collisionEnv :: env where
  "collisionEnv = envWith alice (transferBlock [1, 9] [2, 9] 100)"

definition payload0 :: donationPayload where
  "payload0 = \<lparr>payload_donorId = ''D'', payload_charityId = ''C'', payload_campaignId = ''X'',
     payload_amount = 100\<rparr>"

definition reserve0 :: donation where
  "reserve0 = \<lparr>donation_id = ''u-1'', donation_donorId = ''D'', donation_charityId = ''C'',
     donation_campaignId = ''X'', donation_donator = alice, donation_receiver = bob,
     donation_amount = 100, donation_status = PaymentPending ''PaymentPending'',
     donation_createdAt = ''2024-01-03T00:00:00.000Z'', donation_paid_at_block = None,
     donation_memo = 7\<rparr>"

definition state1 :: canister where
  "state1 = state0\<lparr>pendingReserves := [7 \<mapsto> reserve0], timers := [(9600, 7)]\<rparr>"



definition state1NoDonor :: canister where
  "state1NoDonor = state1\<lparr>donorProfileStorage := Map.empty\<rparr>"

text \<open>
  The same run for a donor whose \<open>donationAmount\<close> is the largest \<^verbatim>\<open>nat64\<close>,
  \<open>2 ^ 64 - 1\<close>: before the reservation (\<open>stateRich0\<close>), with the reservation pending
  (\<open>stateRich1\<close>), and with the pending entry removed again (\<open>stateRich2\<close>).
\<close>

definition donorRich :: donorProfile where
  "donorRich = donorD\<lparr>donor_donationAmount := 18446744073709551615\<rparr>"

definition stateRich0 :: canister where
  "stateRich0 = state0\<lparr>donorProfileStorage := [''D'' \<mapsto> donorRich]\<rparr>"

definition stateRich1 :: canister where
  "stateRich1 = stateRich0\<lparr>pendingReserves := [7 \<mapsto> reserve0], timers := [(9600, 7)]\<rparr>"

definition stateRich2 :: canister where
  "stateRich2 = stateRich1\<lparr>pendingReserves := Map.empty\<rparr>"

definition campaignXCompleted :: campaign where
  "campaignXCompleted = campaignX\<lparr>campaign_status := CampaignCompleted ''Completed''\<rparr>"

section \<open>Basic facts\<close>

subsection \<open>The paths of \<open>completeReserveDonation\<close>\<close>

lemma btree_remove_absent: "m k = None \<Longrightarrow> btree_remove m k = (None, m)"
  by (simp add: btree_remove_def fun_upd_idem)

lemma complete_rejected:
  "verifyPaymentInternal env reservor reservePrice block memo = Inl e \<Longrightarrow>
   completeReserveDonation env reservor donorId reservePrice block memo s = Thrown e s"
  by (simp add: completeReserveDonation_def)

lemma complete_unverified:
  "verifyPaymentInternal env reservor reservePrice block memo = Inr False \<Longrightarrow>
   completeReserveDonation env reservor donorId reservePrice block memo s =
     Returned (Err (NotFound
       (''Cannot complete the donation reserve: cannot verify the payment, memo='' @
        string_of_nat memo)), s)"
  by (simp add: completeReserveDonation_def)

lemma complete_no_pending:
  "verifyPaymentInternal env reservor reservePrice block memo = Inr True \<Longrightarrow>
   pendingReserves s memo = None \<Longrightarrow>
   completeReserveDonation env reservor donorId reservePrice block memo s =
     Returned (Err (NotFound
       (''Cannot complete the donation reserve: there is no pending reserve with id='' @
        donorId)), s)"
  by (simp add: completeReserveDonation_def btree_remove_absent)

lemma complete_no_donor:
  "verifyPaymentInternal env reservor reservePrice block memo = Inr True \<Longrightarrow>
   pendingReserves s memo = Some r \<Longrightarrow>
   donorProfileStorage s donorId = None \<Longrightarrow>
   completeReserveDonation env reservor donorId reservePrice block memo s =
     Thrown (JsError (''Donor with id='' @ donorId @ '' not found''))
       (s\<lparr>pendingReserves := (pendingReserves s)(memo := None)\<rparr>)"
  by (simp add: completeReserveDonation_def btree_remove_def)

lemma complete_out_of_range:
  "verifyPaymentInternal env reservor reservePrice block memo = Inr True \<Longrightarrow>
   pendingReserves s memo = Some r \<Longrightarrow>
   donorProfileStorage s donorId = Some d \<Longrightarrow>
   \<not> donor_donationAmount d + reservePrice < 2 ^ 64 \<Longrightarrow>
   completeReserveDonation env reservor donorId reservePrice block memo s =
     Thrown (Nat64OutOfRange (donor_donationAmount d + reservePrice))
       (s\<lparr>pendingReserves := (pendingReserves s)(memo := None)\<rparr>)"
  by (simp add: completeReserveDonation_def btree_remove_def nat64_encodable_def Let_def)

lemma complete_success:
  "verifyPaymentInternal env reservor reservePrice block memo = Inr True \<Longrightarrow>
   pendingReserves s memo = Some r \<Longrightarrow>
   donorProfileStorage s donorId = Some d \<Longrightarrow>
   donor_donationAmount d + reservePrice < 2 ^ 64 \<Longrightarrow>
   completeReserveDonation env reservor donorId reservePrice block memo s =
     Returned (Ok (r\<lparr>donation_status := Completed ''COMPLETED'',
                    donation_paid_at_block := Some block\<rparr>),
       s\<lparr>pendingReserves := (pendingReserves s)(memo := None),
         donorProfileStorage := (donorProfileStorage s)(donor_id d \<mapsto>
           d\<lparr>donor_donationAmount := donor_donationAmount d + reservePrice\<rparr>),
         persistedReserves := (persistedReserves s)(ic_caller env \<mapsto>
           r\<lparr>donation_status := Completed ''COMPLETED'',
             donation_paid_at_block := Some block\<rparr>)\<rparr>)"
  by (simp add: completeReserveDonation_def btree_remove_def btree_insert_def
      nat64_encodable_def Let_def)



subsection \<open>The ledger verifier\<close>

lemma find_found_iff:
  "(case find P xs of Some x \<Rightarrow> True | None \<Rightarrow> False) \<longleftrightarrow> (\<exists>x\<in>set xs. P x)"
  by (induction xs) simp_all

lemma verifyPaymentInternal_answered:
  "query_blocks env block 1 = Answered blocks \<Longrightarrow>
   verifyPaymentInternal env receiver amount block memo =
     Inr (\<exists>b\<in>set blocks. blockMatches env receiver amount memo b)"
  by (simp add: verifyPaymentInternal_def find_found_iff)

lemma verifyPaymentInternal_rejected:
  "query_blocks env block 1 = Rejected msg \<Longrightarrow>
   verifyPaymentInternal env receiver amount block memo = Inl (CallRejected msg)"
  by (simp add: verifyPaymentInternal_def)

lemma verifyPaymentInternal_Inl_iff:
  "(\<exists>e. verifyPaymentInternal env receiver amount block memo = Inl e) \<longleftrightarrow>
   (\<exists>msg. query_blocks env block 1 = Rejected msg)"
  by (cases "query_blocks env block 1")
     (simp_all add: verifyPaymentInternal_answered verifyPaymentInternal_rejected)

lemma blockMatches_iff:
  "blockMatches env receiver amount memo b \<longleftrightarrow>
     (\<exists>t. tx_operation (block_transaction b) = Some (Transfer t) \<and>
          tx_memo (block_transaction b) = memo \<and>
          hash env (HashAddress (binaryAddressFromPrincipal env (ic_caller env) 0)) =
            hash env (HashAddress (transfer_from t)) \<and>
          hash env (HashAddress (binaryAddressFromPrincipal env receiver 0)) =
            hash env (HashAddress (transfer_to t)) \<and>
          amount = transfer_amount_e8s t)"
proof (cases "tx_operation (block_transaction b)")
  case None
  then show ?thesis by (simp add: blockMatches_def)
next
  case (Some operation)
  then show ?thesis
    by (cases operation) (auto simp: blockMatches_def Let_def)
qed

subsection \<open>The paths of \<open>reserveDonation\<close>\<close>

lemma reserve_no_donor:
  "payload_donorId p \<noteq> [] \<Longrightarrow> payload_charityId p \<noteq> [] \<Longrightarrow> payload_campaignId p \<noteq> [] \<Longrightarrow>
   donorProfileStorage s (payload_donorId p) = None \<Longrightarrow>
   reserveDonation env p s =
     Returned (Err (NotFound (''Cannot reserve donation: Donor with id='' @
       payload_donorId p @ '' not found'')), s)"
  by (simp add: reserveDonation_def)

lemma reserve_no_charity:
  "payload_donorId p \<noteq> [] \<Longrightarrow> payload_charityId p \<noteq> [] \<Longrightarrow> payload_campaignId p \<noteq> [] \<Longrightarrow>
   donorProfileStorage s (payload_donorId p) = Some d \<Longrightarrow>
   charityProfileStorage s (payload_charityId p) = None \<Longrightarrow>
   reserveDonation env p s =
     Returned (Err (NotFound (''Cannot reserve donation: Charity with id='' @
       payload_charityId p @ '' not found'')), s)"
  by (simp add: reserveDonation_def)

lemma reserve_no_campaign:
  "payload_donorId p \<noteq> [] \<Longrightarrow> payload_charityId p \<noteq> [] \<Longrightarrow> payload_campaignId p \<noteq> [] \<Longrightarrow>
   donorProfileStorage s (payload_donorId p) = Some d \<Longrightarrow>
   charityProfileStorage s (payload_charityId p) = Some c \<Longrightarrow>
   campaignStorage s (payload_campaignId p) = None \<Longrightarrow>
   reserveDonation env p s =
     Returned (Err (NotFound (''Cannot reserve donation: Campaign with id='' @
       payload_campaignId p @ '' not found'')), s)"
  by (simp add: reserveDonation_def)

lemma reserve_success:
  "payload_donorId p \<noteq> [] \<Longrightarrow> payload_charityId p \<noteq> [] \<Longrightarrow> payload_campaignId p \<noteq> [] \<Longrightarrow>
   donorProfileStorage s (payload_donorId p) = Some d \<Longrightarrow>
   charityProfileStorage s (payload_charityId p) = Some c \<Longrightarrow>
   campaignStorage s (payload_campaignId p) = Some x \<Longrightarrow>
   reserveDonation env p s =
     Returned (Ok
       \<lparr>donation_id = uuidv4 env,
        donation_donorId = payload_donorId p,
        donation_charityId = payload_charityId p,
        donation_campaignId = payload_campaignId p,
        donation_donator = donor_owner d,
        donation_receiver = campaign_creator x,
        donation_amount = payload_amount p,
        donation_status = PaymentPending ''PaymentPending'',
        donation_createdAt = toISOString env,
        donation_paid_at_block = None,
        donation_memo = generateCorrelationId env (payload_donorId p)\<rparr>,
       s\<lparr>pendingReserves := (pendingReserves s)(generateCorrelationId env (payload_donorId p) \<mapsto>
           \<lparr>donation_id = uuidv4 env,
            donation_donorId = payload_donorId p,
            donation_charityId = payload_charityId p,
            donation_campaignId = payload_campaignId p,
            donation_donator = donor_owner d,
            donation_receiver = campaign_creator x,
            donation_amount = payload_amount p,
            donation_status = PaymentPending ''PaymentPending'',
            donation_createdAt = toISOString env,
            donation_paid_at_block = None,
            donation_memo = generateCorrelationId env (payload_donorId p)\<rparr>),
         timers := timers s @ [(TIMEOUT_PERIOD, generateCorrelationId env (payload_donorId p))]\<rparr>)"
  by (simp add: reserveDonation_def Let_def btree_insert_def discardByTimeout_def)

subsection \<open>The expiry callback\<close>





subsection \<open>Campaign mutations\<close>

lemma updateCampaign_refuses:
  "campaignStorage s campaignId = Some c \<Longrightarrow>
   updateCampaign env campaignId payload s = Returned (Err (Error ''Unauthorized''), s)"
  by (simp add: updateCampaign_def strictNotEqual_def)

lemma deleteCampaignById_refuses:
  "campaignStorage s campaignId = Some c \<Longrightarrow>
   deleteCampaignById env campaignId s = Returned (Err (Error ''Unauthorized''), s)"
  by (simp add: deleteCampaignById_def strictNotEqual_def)

lemma completeCampaign_any_caller:
  "campaignStorage s campaignId = Some c \<Longrightarrow>
   completeCampaign env campaignId s =
     Returned (Ok (c\<lparr>campaign_status := CampaignCompleted ''Completed''\<rparr>),
       s\<lparr>campaignStorage := (campaignStorage s)(campaignId \<mapsto>
           c\<lparr>campaign_status := CampaignCompleted ''Completed''\<rparr>)\<rparr>)"
  by (simp add: completeCampaign_def btree_insert_def Let_def)

subsection \<open>The example run\<close>

lemma example_memo: "generateCorrelationId (exampleEnv who e8s) ''D'' = 7"
  by (simp add: generateCorrelationId_def hash_def exampleEnv_def envWith_def exampleHashCode_def)

lemma example_reserve:
  "reserveDonation (exampleEnv alice 100) payload0 state0 = Returned (Ok reserve0, state1)"
  by (simp add: reserveDonation_def payload0_def state0_def state1_def reserve0_def
      example_memo btree_insert_def discardByTimeout_def TIMEOUT_PERIOD_def Let_def
      donorD_def campaignX_def)
    (simp add: exampleEnv_def envWith_def)

lemma example_reserve_rich:
  "reserveDonation (exampleEnv alice 100) payload0 stateRich0 = Returned (Ok reserve0, stateRich1)"
  by (simp add: reserveDonation_def payload0_def state0_def stateRich0_def stateRich1_def
      reserve0_def example_memo btree_insert_def discardByTimeout_def TIMEOUT_PERIOD_def Let_def
      donorD_def donorRich_def campaignX_def)
    (simp add: exampleEnv_def envWith_def)

lemma example_verified: "verifyPaymentInternal (exampleEnv alice 100) bob 100 5 7 = Inr True"
  by (simp add: verifyPaymentInternal_def blockMatches_def exampleEnv_def envWith_def
      exampleLedger_def transferBlock_def hash_def exampleHashCode_def exampleAddress_def
      alice_def bob_def)

lemma example_unverified: "verifyPaymentInternal (exampleEnv alice 50) bob 100 5 7 = Inr False"
  by (simp add: verifyPaymentInternal_def blockMatches_def exampleEnv_def envWith_def
      exampleLedger_def transferBlock_def hash_def exampleHashCode_def exampleAddress_def
      alice_def bob_def)

lemma example_rejected:
  "verifyPaymentInternal (exampleEnv alice 100) bob 100 9 7 =
     Inl (CallRejected ''ledger unavailable'')"
  by (simp add: verifyPaymentInternal_def exampleEnv_def envWith_def exampleLedger_def)

lemma stranger_verified: "verifyPaymentInternal strangerEnv alice 250 5 7 = Inr True"
  by (simp add: verifyPaymentInternal_def blockMatches_def strangerEnv_def envWith_def
      exampleLedger_def transferBlock_def hash_def exampleHashCode_def exampleAddress_def
      alice_def bob_def carol_def)

lemma collision_verified: "verifyPaymentInternal collisionEnv bob 100 5 7 = Inr True"
  by (simp add: verifyPaymentInternal_def blockMatches_def collisionEnv_def envWith_def
      exampleLedger_def transferBlock_def hash_def exampleHashCode_def exampleAddress_def
      alice_def bob_def)

lemma state1_pending: "pendingReserves state1 7 = Some reserve0"
  by (simp add: state1_def)

lemma state1_donor: "donorProfileStorage state1 ''D'' = Some donorD"
  by (simp add: state1_def state0_def)

lemma stateRich1_pending: "pendingReserves stateRich1 7 = Some reserve0"
  by (simp add: stateRich1_def)

lemma stateRich1_donor: "donorProfileStorage stateRich1 ''D'' = Some donorRich"
  by (simp add: stateRich1_def stateRich0_def)

lemma example_in_range: "donor_donationAmount donorD + 100 < 2 ^ 64"
  by (simp add: donorD_def)

lemma example_out_of_range: "\<not> donor_donationAmount donorRich + 100 < 2 ^ 64"
  by (simp add: donorRich_def)


lemma example_complete_rich:
  "completeReserveDonation (exampleEnv alice 100) bob ''D'' 100 5 7 stateRich1 =
     Thrown (Nat64OutOfRange 18446744073709551715) stateRich2"
  using complete_out_of_range
    [OF example_verified stateRich1_pending stateRich1_donor example_out_of_range]
  by (simp add: stateRich2_def)
     (simp add: stateRich1_def donorRich_def)

lemma string_of_nat_7: "string_of_nat 7 = ''7''"
  by code_simp

section \<open>The reservation protocol\<close>

text \<open>
  C1 (amended). In a state that holds a pending reservation \<open>r\<close> under \<open>memo\<close> and the donor
  record \<open>d\<close> under \<open>donorId\<close> (stored under its own id, as \<^verbatim>\<open>createDonorProfile\<close> stores
  it), completing with that memo and the reserved amount, when the ledger verification
  succeeds and the donor's \<open>donationAmount\<close> plus the reserved amount is still a
  \<^verbatim>\<open>nat64\<close> (below \<open>2 ^ 64\<close>), returns the reservation with status \<open>Completed\<close> and
  \<open>paid_at_block = Some block\<close>, and the donor's \<open>donationAmount\<close> has grown by exactly the
  reserved amount.
\<close>

theorem C1_reserve_then_complete:
  assumes "pendingReserves s memo = Some r"
    and "donorProfileStorage s donorId = Some d"
    and "donor_id d = donorId"
    and "verifyPaymentInternal env reservor (donation_amount r) block memo = Inr True"
    and "donor_donationAmount d + donation_amount r < 2 ^ 64"
  shows "\<exists>don s'.
      completeReserveDonation env reservor donorId (donation_amount r) block memo s =
        Returned (Ok don, s') \<and>
      don = r\<lparr>donation_status := Completed ''COMPLETED'', donation_paid_at_block := Some block\<rparr> \<and>
      donorProfileStorage s' donorId =
        Some (d\<lparr>donor_donationAmount := donor_donationAmount d + donation_amount r\<rparr>)"
  using assms by (simp add: complete_success)

theorem C1_reserve_then_complete_witness:
  "reserveDonation (exampleEnv alice 100) payload0 state0 = Returned (Ok reserve0, state1) \<and>
   pendingReserves state1 7 = Some reserve0 \<and>
   donorProfileStorage state1 ''D'' = Some donorD \<and>
   donor_id donorD = ''D'' \<and>
   verifyPaymentInternal (exampleEnv alice 100) bob (donation_amount reserve0) 5 7 = Inr True \<and>
   donor_donationAmount donorD + donation_amount reserve0 < 2 ^ 64 \<and>
   (\<exists>don s'.
      completeReserveDonation (exampleEnv alice 100) bob ''D'' (donation_amount reserve0) 5 7 state1 =
        Returned (Ok don, s') \<and>
      don = reserve0\<lparr>donation_status := Completed ''COMPLETED'', donation_paid_at_block := Some 5\<rparr> \<and>
      donorProfileStorage s' ''D'' = Some (donorD\<lparr>donor_donationAmount := 100\<rparr>))"
proof -
  have v: "verifyPaymentInternal (exampleEnv alice 100) bob (donation_amount reserve0) 5 7 =
      Inr True"
    using example_verified by (simp add: reserve0_def)
  have i: "donor_id donorD = ''D''" by (simp add: donorD_def)
  have a: "donor_donationAmount donorD + donation_amount reserve0 = 100"
    by (simp add: donorD_def reserve0_def)
  have b: "donor_donationAmount donorD + donation_amount reserve0 < 2 ^ 64"
    by (simp add: a)
  show ?thesis
    using C1_reserve_then_complete [OF state1_pending state1_donor i v b] example_reserve
      state1_pending state1_donor i v a b
    by simp
qed

text \<open>
  Without the bound the claim fails. The donor's \<open>donationAmount\<close> is \<open>2 ^ 64 - 1\<close>,
  \<^verbatim>\<open>reserveDonation\<close> reserves 100, the payment verifies: \<^verbatim>\<open>completeReserveDonation\<close>
  removes the pending entry and then throws where it writes the donor back. No donation is
  returned, and the donor record is the one before the call.
\<close>

theorem C1_counterexample:
  "reserveDonation (exampleEnv alice 100) payload0 stateRich0 = Returned (Ok reserve0, stateRich1) \<and>
   pendingReserves stateRich1 7 = Some reserve0 \<and>
   donorProfileStorage stateRich1 ''D'' = Some donorRich \<and>
   donor_id donorRich = ''D'' \<and>
   donor_donationAmount donorRich = 18446744073709551615 \<and>
   donation_amount reserve0 = 100 \<and>
   verifyPaymentInternal (exampleEnv alice 100) bob (donation_amount reserve0) 5 7 = Inr True \<and>
   completeReserveDonation (exampleEnv alice 100) bob ''D'' (donation_amount reserve0) 5 7
     stateRich1 = Thrown (Nat64OutOfRange 18446744073709551715) stateRich2 \<and>
   \<not> (\<exists>don s'.
      completeReserveDonation (exampleEnv alice 100) bob ''D'' (donation_amount reserve0) 5 7
        stateRich1 = Returned (Ok don, s')) \<and>
   donorProfileStorage stateRich2 ''D'' = Some donorRich"
proof -
  have a: "donation_amount reserve0 = 100" by (simp add: reserve0_def)
  have d: "donor_id donorRich = ''D''" "donor_donationAmount donorRich = 18446744073709551615"
    by (simp_all add: donorRich_def donorD_def)
  have k: "donorProfileStorage stateRich2 ''D'' = Some donorRich"
    by (simp add: stateRich2_def stateRich1_def stateRich0_def)
  show ?thesis
    using example_reserve_rich stateRich1_pending stateRich1_donor example_verified
      example_complete_rich a d k
    by simp
qed



text \<open>
  C3. When the ledger verification fails, \<^verbatim>\<open>completeReserveDonation\<close> returns a
  \<open>NotFound\<close> error and the whole canister state, with the pending, donor and completed
  tables, is as before; so a later call for the same memo whose payment verifies (at another
  block, say) still completes the reservation \<open>r\<close> pending under that memo, the donor's new
  \<open>donationAmount\<close> being a \<^verbatim>\<open>nat64\<close>.
\<close>

theorem C3_unverified_no_mutation:
  assumes "verifyPaymentInternal env reservor reservePrice block memo = Inr False"
  shows "completeReserveDonation env reservor donorId reservePrice block memo s =
           Returned (Err (NotFound
             (''Cannot complete the donation reserve: cannot verify the payment, memo='' @
              string_of_nat memo)), s) \<and>
         (verifyPaymentInternal env2 reservor reservePrice block2 memo = Inr True \<longrightarrow>
          pendingReserves s memo = Some r \<longrightarrow>
          donorProfileStorage s donorId = Some d \<longrightarrow>
          donor_donationAmount d + reservePrice < 2 ^ 64 \<longrightarrow>
          (\<exists>s2. completeReserveDonation env2 reservor donorId reservePrice block2 memo s =
             Returned (Ok (r\<lparr>donation_status := Completed ''COMPLETED'',
                            donation_paid_at_block := Some block2\<rparr>), s2)))"
  using assms by (simp add: complete_unverified complete_success)

theorem C3_unverified_no_mutation_witness:
  "verifyPaymentInternal (exampleEnv alice 50) bob 100 5 7 = Inr False \<and>
   completeReserveDonation (exampleEnv alice 50) bob ''D'' 100 5 7 state1 =
     Returned (Err (NotFound
       ''Cannot complete the donation reserve: cannot verify the payment, memo=7''), state1) \<and>
   verifyPaymentInternal (exampleEnv alice 100) bob 100 5 7 = Inr True \<and>
   pendingReserves state1 7 = Some reserve0 \<and>
   donorProfileStorage state1 ''D'' = Some donorD \<and>
   donor_donationAmount donorD + 100 < 2 ^ 64 \<and>
   (\<exists>s2. completeReserveDonation (exampleEnv alice 100) bob ''D'' 100 5 7 state1 =
      Returned (Ok (reserve0\<lparr>donation_status := Completed ''COMPLETED'',
                       donation_paid_at_block := Some 5\<rparr>), s2))"
  using C3_unverified_no_mutation [OF example_unverified,
      of "''D''" state1 "exampleEnv alice 100" 5 reserve0 donorD]
    example_unverified example_verified state1_pending state1_donor example_in_range
  by (simp add: string_of_nat_7)

text \<open>
  C4 (amended). When the ledger answers, \<^verbatim>\<open>verifyPayment\<close> returns a boolean and does not
  throw. It returns true exactly when the answer holds a transfer whose transaction memo is
  the supplied memo, whose amount is \<open>amount\<close>, whose source address has the same
  \<^verbatim>\<open>hash\<close> value as the address of the caller, and whose destination address has the same
  \<^verbatim>\<open>hash\<close> value as the address of \<open>receiver\<close>. So it returns false when the block is absent,
  when no block of the answer holds a transfer operation, and when the memo, the amount or
  one of the two hash values differs. (It throws when the ledger rejects the query.)
\<close>

theorem C4_verifyPayment:
  "(query_blocks env block 1 = Answered blocks \<longrightarrow>
      verifyPayment env receiver amount block memo =
        Inr (\<exists>b\<in>set blocks. \<exists>t.
          tx_operation (block_transaction b) = Some (Transfer t) \<and>
          tx_memo (block_transaction b) = memo \<and>
          hash env (HashAddress (binaryAddressFromPrincipal env (ic_caller env) 0)) =
            hash env (HashAddress (transfer_from t)) \<and>
          hash env (HashAddress (binaryAddressFromPrincipal env receiver 0)) =
            hash env (HashAddress (transfer_to t)) \<and>
          amount = transfer_amount_e8s t)) \<and>
   (verifyPayment env receiver amount block memo = Inr True \<longrightarrow>
      (\<exists>bs. query_blocks env block 1 = Answered bs \<and>
        (\<exists>b\<in>set bs. \<exists>t.
          tx_operation (block_transaction b) = Some (Transfer t) \<and>
          tx_memo (block_transaction b) = memo \<and>
          hash env (HashAddress (binaryAddressFromPrincipal env (ic_caller env) 0)) =
            hash env (HashAddress (transfer_from t)) \<and>
          hash env (HashAddress (binaryAddressFromPrincipal env receiver 0)) =
            hash env (HashAddress (transfer_to t)) \<and>
          amount = transfer_amount_e8s t))) \<and>
   (query_blocks env block 1 = Answered [] \<longrightarrow>
      verifyPayment env receiver amount block memo = Inr False) \<and>
   (query_blocks env block 1 = Answered blocks \<longrightarrow>
    (\<forall>b\<in>set blocks. \<forall>t. tx_operation (block_transaction b) \<noteq> Some (Transfer t)) \<longrightarrow>
      verifyPayment env receiver amount block memo = Inr False) \<and>
   (query_blocks env block 1 = Rejected msg \<longrightarrow>
      verifyPayment env receiver amount block memo = Inl (CallRejected msg))"
proof (cases "query_blocks env block 1")
  case (Answered bs)
  then show ?thesis
    by (simp add: verifyPayment_def verifyPaymentInternal_answered blockMatches_iff)
next
  case (Rejected m)
  then show ?thesis
    by (simp add: verifyPayment_def verifyPaymentInternal_rejected)
qed

theorem C4_verifyPayment_witness:
  "query_blocks (exampleEnv alice 100) 5 1 = Answered [transferBlock [1] [2] 100] \<and>
   verifyPayment (exampleEnv alice 100) bob 100 5 7 = Inr True \<and>
   verifyPayment (exampleEnv alice 50) bob 100 5 7 = Inr False \<and>
   verifyPayment (exampleEnv alice 100) carol 100 5 7 = Inr False \<and>
   verifyPayment (exampleEnv carol 100) bob 100 5 7 = Inr False \<and>
   verifyPayment (exampleEnv alice 100) bob 100 5 9 = Inr False \<and>
   query_blocks (exampleEnv alice 100) 6 1 = Answered [] \<and>
   verifyPayment (exampleEnv alice 100) bob 100 6 7 = Inr False \<and>
   query_blocks (exampleEnv alice 100) 8 1 = Answered [noOperationBlock] \<and>
   tx_operation (block_transaction noOperationBlock) = None \<and>
   verifyPayment (exampleEnv alice 100) bob 100 8 7 = Inr False \<and>
   query_blocks (exampleEnv alice 100) 9 1 = Rejected ''ledger unavailable'' \<and>
   verifyPayment (exampleEnv alice 100) bob 100 9 7 = Inl (CallRejected ''ledger unavailable'')"
  using C4_verifyPayment [of "exampleEnv alice 100" 5 "[transferBlock [1] [2] 100]" bob 100 7]
    C4_verifyPayment [of "exampleEnv alice 50" 5 "[transferBlock [1] [2] 50]" bob 100 7]
    C4_verifyPayment [of "exampleEnv alice 100" 5 "[transferBlock [1] [2] 100]" carol 100 7]
    C4_verifyPayment [of "exampleEnv carol 100" 5 "[transferBlock [1] [2] 100]" bob 100 7]
    C4_verifyPayment [of "exampleEnv alice 100" 5 "[transferBlock [1] [2] 100]" bob 100 9]
    C4_verifyPayment [of "exampleEnv alice 100" 6 "[]" bob 100 7]
    C4_verifyPayment [of "exampleEnv alice 100" 8 "[noOperationBlock]" bob 100 7]
    C4_verifyPayment [of "exampleEnv alice 100" 9 "[]" bob 100 7 "''ledger unavailable''"]
  by (simp add: exampleEnv_def envWith_def exampleLedger_def transferBlock_def noOperationBlock_def
      hash_def exampleHashCode_def exampleAddress_def alice_def bob_def carol_def)

text \<open>
  The claim as it stands, with matching addresses, fails where two addresses share a hash
  value. Here \<open>alice\<close>'s address is \<open>[1]\<close> and \<open>bob\<close>'s is \<open>[2]\<close>; block 5 holds a transfer
  of 100 with memo 7 from \<open>[1, 9]\<close> to \<open>[2, 9]\<close>, and the hash looks at the first byte only.
  \<^verbatim>\<open>verifyPayment\<close>, called by \<open>alice\<close> with receiver \<open>bob\<close>, returns true, though neither
  address of the transfer is the one derived from the principal.
\<close>

theorem C4_counterexample:
  "ic_caller collisionEnv = alice \<and>
   binaryAddressFromPrincipal collisionEnv alice 0 = [1] \<and>
   binaryAddressFromPrincipal collisionEnv bob 0 = [2] \<and>
   query_blocks collisionEnv 5 1 = Answered [transferBlock [1, 9] [2, 9] 100] \<and>
   tx_operation (block_transaction (transferBlock [1, 9] [2, 9] 100)) =
     Some (Transfer \<lparr>transfer_from = [1, 9], transfer_to = [2, 9], transfer_amount_e8s = 100\<rparr>) \<and>
   [1, 9] \<noteq> binaryAddressFromPrincipal collisionEnv alice 0 \<and>
   [2, 9] \<noteq> binaryAddressFromPrincipal collisionEnv bob 0 \<and>
   verifyPayment collisionEnv bob 100 5 7 = Inr True"
  using collision_verified
  by (simp add: verifyPayment_def collisionEnv_def envWith_def exampleLedger_def
      transferBlock_def exampleAddress_def alice_def bob_def)

text \<open>
  C5. With the three ids of the payload non-empty, \<^verbatim>\<open>reserveDonation\<close> returns a
  \<open>NotFound\<close> error when a referenced record is missing. The donor is looked up first, then
  the charity, then the campaign, and the message names the first one missing in that
  order. The state is returned unchanged.
\<close>

theorem C5_reserve_not_found_order:
  assumes "payload_donorId p \<noteq> []" and "payload_charityId p \<noteq> []"
    and "payload_campaignId p \<noteq> []"
  shows "(donorProfileStorage s (payload_donorId p) = None \<longrightarrow>
            reserveDonation env p s =
              Returned (Err (NotFound (''Cannot reserve donation: Donor with id='' @
                payload_donorId p @ '' not found'')), s)) \<and>
         (donorProfileStorage s (payload_donorId p) \<noteq> None \<longrightarrow>
          charityProfileStorage s (payload_charityId p) = None \<longrightarrow>
            reserveDonation env p s =
              Returned (Err (NotFound (''Cannot reserve donation: Charity with id='' @
                payload_charityId p @ '' not found'')), s)) \<and>
         (donorProfileStorage s (payload_donorId p) \<noteq> None \<longrightarrow>
          charityProfileStorage s (payload_charityId p) \<noteq> None \<longrightarrow>
          campaignStorage s (payload_campaignId p) = None \<longrightarrow>
            reserveDonation env p s =
              Returned (Err (NotFound (''Cannot reserve donation: Campaign with id='' @
                payload_campaignId p @ '' not found'')), s))"
  using assms by (auto simp: reserve_no_donor reserve_no_charity reserve_no_campaign)

theorem C5_reserve_not_found_order_witness:
  "reserveDonation (exampleEnv alice 100)
     \<lparr>payload_donorId = ''D2'', payload_charityId = ''C2'', payload_campaignId = ''X2'',
      payload_amount = 100\<rparr> state0 =
     Returned (Err (NotFound ''Cannot reserve donation: Donor with id=D2 not found''), state0) \<and>
   reserveDonation (exampleEnv alice 100)
     \<lparr>payload_donorId = ''D'', payload_charityId = ''C2'', payload_campaignId = ''X2'',
      payload_amount = 100\<rparr> state0 =
     Returned (Err (NotFound ''Cannot reserve donation: Charity with id=C2 not found''), state0) \<and>
   reserveDonation (exampleEnv alice 100)
     \<lparr>payload_donorId = ''D'', payload_charityId = ''C'', payload_campaignId = ''X2'',
      payload_amount = 100\<rparr> state0 =
     Returned (Err (NotFound ''Cannot reserve donation: Campaign with id=X2 not found''), state0)"
  using
    C5_reserve_not_found_order [of "\<lparr>payload_donorId = ''D2'', payload_charityId = ''C2'',
      payload_campaignId = ''X2'', payload_amount = 100\<rparr>" state0 "exampleEnv alice 100"]
    C5_reserve_not_found_order [of "\<lparr>payload_donorId = ''D'', payload_charityId = ''C2'',
      payload_campaignId = ''X2'', payload_amount = 100\<rparr>" state0 "exampleEnv alice 100"]
    C5_reserve_not_found_order [of "\<lparr>payload_donorId = ''D'', payload_charityId = ''C'',
      payload_campaignId = ''X2'', payload_amount = 100\<rparr>" state0 "exampleEnv alice 100"]
  by (simp add: state0_def)

text \<open>
  C6. When the donor, the charity and the campaign of the payload exist (under the non-empty
  ids the method requires), \<^verbatim>\<open>reserveDonation\<close> returns a reservation with status
  \<open>PaymentPending\<close>, the donor's owner as \<open>donator\<close>, the campaign's creator as
  \<open>receiver\<close>, and the output of \<^verbatim>\<open>generateCorrelationId\<close> on the donor id as memo. The
  reservation is inserted into the pending table under that memo, its expiry timer is
  registered, and the other tables are unchanged.
\<close>

theorem C6_reserve_success:
  assumes "payload_donorId p \<noteq> []" and "payload_charityId p \<noteq> []"
    and "payload_campaignId p \<noteq> []"
    and "donorProfileStorage s (payload_donorId p) = Some d"
    and "charityProfileStorage s (payload_charityId p) = Some c"
    and "campaignStorage s (payload_campaignId p) = Some x"
  shows "\<exists>don s'.
      reserveDonation env p s = Returned (Ok don, s') \<and>
      donation_status don = PaymentPending ''PaymentPending'' \<and>
      donation_donator don = donor_owner d \<and>
      donation_receiver don = campaign_creator x \<and>
      donation_memo don = generateCorrelationId env (payload_donorId p) \<and>
      donation_amount don = payload_amount p \<and>
      donation_paid_at_block don = None \<and>
      pendingReserves s' = (pendingReserves s)(donation_memo don \<mapsto> don) \<and>
      timers s' = timers s @ [(TIMEOUT_PERIOD, donation_memo don)] \<and>
      donorProfileStorage s' = donorProfileStorage s \<and>
      charityProfileStorage s' = charityProfileStorage s \<and>
      campaignStorage s' = campaignStorage s \<and>
      persistedReserves s' = persistedReserves s"
  using assms by (simp add: reserve_success)

theorem C6_reserve_success_witness:
  "payload_donorId payload0 \<noteq> [] \<and> payload_charityId payload0 \<noteq> [] \<and>
   payload_campaignId payload0 \<noteq> [] \<and>
   donorProfileStorage state0 (payload_donorId payload0) = Some donorD \<and>
   charityProfileStorage state0 (payload_charityId payload0) = Some charityC \<and>
   campaignStorage state0 (payload_campaignId payload0) = Some campaignX \<and>
   (\<exists>don s'.
      reserveDonation (exampleEnv alice 100) payload0 state0 = Returned (Ok don, s') \<and>
      donation_status don = PaymentPending ''PaymentPending'' \<and>
      donation_donator don = alice \<and>
      donation_receiver don = bob \<and>
      donation_memo don = 7 \<and>
      pendingReserves s' = [7 \<mapsto> don] \<and>
      timers s' = [(9600, 7)])"
proof -
  have h: "payload_donorId payload0 \<noteq> []" "payload_charityId payload0 \<noteq> []"
    "payload_campaignId payload0 \<noteq> []"
    "donorProfileStorage state0 (payload_donorId payload0) = Some donorD"
    "charityProfileStorage state0 (payload_charityId payload0) = Some charityC"
    "campaignStorage state0 (payload_campaignId payload0) = Some campaignX"
    by (simp_all add: payload0_def state0_def)
  have e: "donor_owner donorD = alice" "campaign_creator campaignX = bob"
    "generateCorrelationId (exampleEnv alice 100) (payload_donorId payload0) = 7"
    "pendingReserves state0 = Map.empty" "timers state0 = []" "TIMEOUT_PERIOD = 9600"
    using example_memo [of alice 100]
    by (simp_all add: donorD_def campaignX_def payload0_def state0_def TIMEOUT_PERIOD_def)
  show ?thesis
    using C6_reserve_success [OF h, of "exampleEnv alice 100"] h e by auto
qed



text \<open>
  C8 (amended). \<^verbatim>\<open>reserveDonation\<close> always returns a tagged result.
  \<^verbatim>\<open>completeReserveDonation\<close> returns a tagged result as well, except in three cases, where
  it throws: the ledger rejects the block query; or the payment has verified, the pending
  entry of the memo has been removed, and no donor record is stored under \<open>donorId\<close>; or the
  payment has verified, the pending entry has been removed, the donor record is there, and
  its \<open>donationAmount\<close> plus \<open>reservePrice\<close> is no \<^verbatim>\<open>nat64\<close>, so that the record cannot be
  written back. \<^verbatim>\<open>verifyPayment\<close> throws in the first of these cases only.
\<close>

theorem C8_only_throw:
  "(\<exists>res s'. reserveDonation env0 p s0 = Returned (res, s')) \<and>
   ((\<exists>e s'. completeReserveDonation env reservor donorId reservePrice block memo s = Thrown e s')
      \<longleftrightarrow>
    ((\<exists>msg. query_blocks env block 1 = Rejected msg) \<or>
     (verifyPaymentInternal env reservor reservePrice block memo = Inr True \<and>
      pendingReserves s memo \<noteq> None \<and> donorProfileStorage s donorId = None) \<or>
     (verifyPaymentInternal env reservor reservePrice block memo = Inr True \<and>
      pendingReserves s memo \<noteq> None \<and>
      (\<exists>d. donorProfileStorage s donorId = Some d \<and>
           2 ^ 64 \<le> donor_donationAmount d + reservePrice)))) \<and>
   ((\<exists>res s'. completeReserveDonation env reservor donorId reservePrice block memo s =
        Returned (res, s'))
      \<longleftrightarrow>
    \<not> ((\<exists>msg. query_blocks env block 1 = Rejected msg) \<or>
       (verifyPaymentInternal env reservor reservePrice block memo = Inr True \<and>
        pendingReserves s memo \<noteq> None \<and> donorProfileStorage s donorId = None) \<or>
       (verifyPaymentInternal env reservor reservePrice block memo = Inr True \<and>
        pendingReserves s memo \<noteq> None \<and>
        (\<exists>d. donorProfileStorage s donorId = Some d \<and>
             2 ^ 64 \<le> donor_donationAmount d + reservePrice)))) \<and>
   (query_blocks env block 1 = Rejected msg \<longrightarrow>
    completeReserveDonation env reservor donorId reservePrice block memo s =
      Thrown (CallRejected msg) s) \<and>
   (verifyPaymentInternal env reservor reservePrice block memo = Inr True \<and>
    pendingReserves s memo \<noteq> None \<and> donorProfileStorage s donorId = None \<longrightarrow>
    completeReserveDonation env reservor donorId reservePrice block memo s =
      Thrown (JsError (''Donor with id='' @ donorId @ '' not found''))
        (s\<lparr>pendingReserves := (pendingReserves s)(memo := None)\<rparr>)) \<and>
   (verifyPaymentInternal env reservor reservePrice block memo = Inr True \<and>
    pendingReserves s memo \<noteq> None \<and> donorProfileStorage s donorId = Some d \<and>
    2 ^ 64 \<le> donor_donationAmount d + reservePrice \<longrightarrow>
    completeReserveDonation env reservor donorId reservePrice block memo s =
      Thrown (Nat64OutOfRange (donor_donationAmount d + reservePrice))
        (s\<lparr>pendingReserves := (pendingReserves s)(memo := None)\<rparr>)) \<and>
   ((\<exists>e. verifyPayment env receiver amount block memo1 = Inl e) \<longleftrightarrow>
    (\<exists>msg. query_blocks env block 1 = Rejected msg))"
proof -
  let ?call = "completeReserveDonation env reservor donorId reservePrice block memo s"
  let ?verified = "verifyPaymentInternal env reservor reservePrice block memo = Inr True"
  let ?rejected = "\<exists>msg. query_blocks env block 1 = Rejected msg"
  let ?no_donor = "?verified \<and> pendingReserves s memo \<noteq> None \<and> donorProfileStorage s donorId = None"
  let ?too_big = "?verified \<and> pendingReserves s memo \<noteq> None \<and>
    (\<exists>d. donorProfileStorage s donorId = Some d \<and> 2 ^ 64 \<le> donor_donationAmount d + reservePrice)"
  have r: "\<exists>res s'. reserveDonation env0 p s0 = Returned (res, s')"
    by (simp add: reserveDonation_def Let_def btree_insert_def split: option.split)
  have a: "?call = Thrown (CallRejected m) s" if "query_blocks env block 1 = Rejected m" for m
    using that by (simp add: complete_rejected verifyPaymentInternal_rejected)
  have b: "?call = Thrown (JsError (''Donor with id='' @ donorId @ '' not found''))
      (s\<lparr>pendingReserves := (pendingReserves s)(memo := None)\<rparr>)" if "?no_donor"
    using that by (auto simp: complete_no_donor)
  have c: "?call = Thrown (Nat64OutOfRange (donor_donationAmount d' + reservePrice))
      (s\<lparr>pendingReserves := (pendingReserves s)(memo := None)\<rparr>)"
    if "?verified" and "pendingReserves s memo \<noteq> None" and "donorProfileStorage s donorId = Some d'"
      and "2 ^ 64 \<le> donor_donationAmount d' + reservePrice" for d'
    using that by (auto simp: complete_out_of_range)
  have n: "\<exists>res s'. ?call = Returned (res, s')" if "\<not> (?rejected \<or> ?no_donor \<or> ?too_big)"
  proof (cases "verifyPaymentInternal env reservor reservePrice block memo")
    case (Inl e)
    with that verifyPaymentInternal_Inl_iff [of env reservor reservePrice block memo]
    show ?thesis by blast
  next
    case (Inr verified)
    show ?thesis
    proof (cases verified)
      case False
      with Inr show ?thesis by (simp add: complete_unverified)
    next
      case True
      with Inr have v: "?verified" by simp
      show ?thesis
      proof (cases "pendingReserves s memo")
        case None
        with v show ?thesis by (simp add: complete_no_pending)
      next
        case (Some r)
        with that v obtain d' where d: "donorProfileStorage s donorId = Some d'" by auto
        with that v Some have "donor_donationAmount d' + reservePrice < 2 ^ 64" by auto
        with v Some d show ?thesis by (simp add: complete_success)
      qed
    qed
  qed
  have t: "(\<exists>e s'. ?call = Thrown e s') \<longleftrightarrow> (?rejected \<or> ?no_donor \<or> ?too_big)"
    using a b c n by (metis outcome.distinct(1))
  have u: "(\<exists>res s'. ?call = Returned (res, s')) \<longleftrightarrow> \<not> (?rejected \<or> ?no_donor \<or> ?too_big)"
    using a b c n by (metis outcome.distinct(1))
  have q: "(\<exists>e. verifyPayment env receiver amount block memo1 = Inl e) \<longleftrightarrow> ?rejected"
    by (simp add: verifyPayment_def verifyPaymentInternal_Inl_iff)
  show ?thesis
    using r t u q a b c by blast
qed

theorem C8_only_throw_witness:
  "(\<exists>res s'. reserveDonation (exampleEnv alice 100) payload0 state0 = Returned (res, s')) \<and>
   query_blocks (exampleEnv alice 100) 9 1 = Rejected ''ledger unavailable'' \<and>
   completeReserveDonation (exampleEnv alice 100) bob ''D'' 100 9 7 state1 =
     Thrown (CallRejected ''ledger unavailable'') state1 \<and>
   verifyPaymentInternal (exampleEnv alice 100) bob 100 5 7 = Inr True \<and>
   pendingReserves state1NoDonor 7 \<noteq> None \<and>
   donorProfileStorage state1NoDonor ''D'' = None \<and>
   completeReserveDonation (exampleEnv alice 100) bob ''D'' 100 5 7 state1NoDonor =
     Thrown (JsError ''Donor with id=D not found'')
       (state1NoDonor\<lparr>pendingReserves := Map.empty\<rparr>) \<and>
   pendingReserves stateRich1 7 \<noteq> None \<and>
   donorProfileStorage stateRich1 ''D'' = Some donorRich \<and>
   (2 :: nat) ^ 64 \<le> donor_donationAmount donorRich + 100 \<and>
   completeReserveDonation (exampleEnv alice 100) bob ''D'' 100 5 7 stateRich1 =
     Thrown (Nat64OutOfRange 18446744073709551715) (stateRich1\<lparr>pendingReserves := Map.empty\<rparr>) \<and>
   (\<exists>res s'. completeReserveDonation (exampleEnv alice 100) bob ''D'' 100 5 7 state1 =
        Returned (res, s')) \<and>
   verifyPayment (exampleEnv alice 100) bob 100 9 7 = Inl (CallRejected ''ledger unavailable'')"
proof -
  have q: "query_blocks (exampleEnv alice 100) 9 1 = Rejected ''ledger unavailable''"
    "query_blocks (exampleEnv alice 100) 5 1 = Answered [transferBlock [1] [2] 100]"
    by (simp_all add: exampleEnv_def envWith_def exampleLedger_def)
  have h: "pendingReserves state1NoDonor 7 \<noteq> None" "donorProfileStorage state1NoDonor ''D'' = None"
    "(pendingReserves state1NoDonor)(7 := None) = Map.empty"
    by (simp_all add: state1NoDonor_def state1_def state0_def)
  have k: "pendingReserves stateRich1 7 \<noteq> None"
    "(2 :: nat) ^ 64 \<le> donor_donationAmount donorRich + 100"
    "donor_donationAmount donorRich + 100 = 18446744073709551715"
    "(pendingReserves stateRich1)(7 := None) = Map.empty"
    by (simp_all add: stateRich1_def stateRich0_def state0_def donorRich_def)
  have g: "pendingReserves state1 7 \<noteq> None" "donor_donationAmount donorD + 100 < 2 ^ 64"
    by (simp_all add: state1_def donorD_def)
  have v: "verifyPayment (exampleEnv alice 100) bob 100 9 7 =
      Inl (CallRejected ''ledger unavailable'')"
    using example_rejected by (simp add: verifyPayment_def)
  show ?thesis
    using C8_only_throw [of "exampleEnv alice 100" payload0 state0 "exampleEnv alice 100" bob
        "''D''" 100 9 7 state1 "''ledger unavailable''"]
      C8_only_throw [of "exampleEnv alice 100" payload0 state0 "exampleEnv alice 100" bob
        "''D''" 100 5 7 state1NoDonor]
      C8_only_throw [of "exampleEnv alice 100" payload0 state0 "exampleEnv alice 100" bob
        "''D''" 100 5 7 stateRich1 _ donorRich]
      C8_only_throw [of "exampleEnv alice 100" payload0 state0 "exampleEnv alice 100" bob
        "''D''" 100 5 7 state1]
      q h k g v example_verified state1_donor stateRich1_donor
    by simp
qed

text \<open>
  The claim as it stands, with the missing donor as the only throw, fails twice with the donor
  record in place: where the donor's \<open>donationAmount\<close> is \<open>2 ^ 64 - 1\<close> and 100 is added,
  and where the ledger rejects the query of block 9.
\<close>

theorem C8_counterexample:
  "verifyPaymentInternal (exampleEnv alice 100) bob 100 5 7 = Inr True \<and>
   pendingReserves stateRich1 7 = Some reserve0 \<and>
   donorProfileStorage stateRich1 ''D'' = Some donorRich \<and>
   completeReserveDonation (exampleEnv alice 100) bob ''D'' 100 5 7 stateRich1 =
     Thrown (Nat64OutOfRange 18446744073709551715) stateRich2 \<and>
   donorProfileStorage state1 ''D'' = Some donorD \<and>
   completeReserveDonation (exampleEnv alice 100) bob ''D'' 100 9 7 state1 =
     Thrown (CallRejected ''ledger unavailable'') state1"
  using example_verified stateRich1_pending stateRich1_donor example_complete_rich state1_donor
    complete_rejected [OF example_rejected, of "''D''" state1]
  by simp

text \<open>
  C10. \<^verbatim>\<open>completeReserveDonation\<close> verifies the payment for the \<open>reservor\<close> and the
  \<open>reservePrice\<close> of the call and for the ambient caller, and credits the donor with
  \<open>reservePrice\<close>, whatever amount, receiver and donator the pending reservation \<open>r\<close>
  holds: these three fields are only copied into the completed record. (Where the donor's
  \<open>donationAmount\<close> plus \<open>reservePrice\<close> is no \<^verbatim>\<open>nat64\<close>, the donor cannot be written back
  and the call throws, again whatever \<open>r\<close> holds.) In the instance below the reservation is
  for 100 from \<open>alice\<close> to \<open>bob\<close>, the call is \<open>carol\<close>'s with a reserve price of 250, and
  the donor is credited 250.
\<close>

theorem C10_credit_is_argument:
  assumes "pendingReserves s memo = Some r"
    and "donorProfileStorage s donorId = Some d"
    and "verifyPaymentInternal env reservor reservePrice block memo = Inr True"
  shows "(\<exists>bs. query_blocks env block 1 = Answered bs \<and>
          (\<exists>b\<in>set bs. \<exists>t.
            tx_operation (block_transaction b) = Some (Transfer t) \<and>
            tx_memo (block_transaction b) = memo \<and>
            hash env (HashAddress (transfer_from t)) =
              hash env (HashAddress (binaryAddressFromPrincipal env (ic_caller env) 0)) \<and>
            hash env (HashAddress (transfer_to t)) =
              hash env (HashAddress (binaryAddressFromPrincipal env reservor 0)) \<and>
            transfer_amount_e8s t = reservePrice)) \<and>
         (donor_donationAmount d + reservePrice < 2 ^ 64 \<longrightarrow>
          (\<exists>don s'.
            completeReserveDonation env reservor donorId reservePrice block memo s =
              Returned (Ok don, s') \<and>
            donorProfileStorage s' =
              (donorProfileStorage s)(donor_id d \<mapsto>
                 d\<lparr>donor_donationAmount := donor_donationAmount d + reservePrice\<rparr>) \<and>
            donation_amount don = donation_amount r \<and>
            donation_receiver don = donation_receiver r \<and>
            donation_donator don = donation_donator r)) \<and>
         (2 ^ 64 \<le> donor_donationAmount d + reservePrice \<longrightarrow>
          completeReserveDonation env reservor donorId reservePrice block memo s =
            Thrown (Nat64OutOfRange (donor_donationAmount d + reservePrice))
              (s\<lparr>pendingReserves := (pendingReserves s)(memo := None)\<rparr>))"
proof -
  obtain bs where bs: "query_blocks env block 1 = Answered bs"
    using assms(3) by (cases "query_blocks env block 1") (simp_all add: verifyPaymentInternal_rejected)
  with assms(3) have "\<exists>b\<in>set bs. blockMatches env reservor reservePrice memo b"
    by (simp add: verifyPaymentInternal_answered)
  then obtain b t where "b \<in> set bs"
    and "tx_operation (block_transaction b) = Some (Transfer t)"
    and "tx_memo (block_transaction b) = memo"
    and "hash env (HashAddress (binaryAddressFromPrincipal env (ic_caller env) 0)) =
      hash env (HashAddress (transfer_from t))"
    and "hash env (HashAddress (binaryAddressFromPrincipal env reservor 0)) =
      hash env (HashAddress (transfer_to t))"
    and "reservePrice = transfer_amount_e8s t"
    unfolding blockMatches_iff by blast
  then have "\<exists>b\<in>set bs. \<exists>t.
      tx_operation (block_transaction b) = Some (Transfer t) \<and>
      tx_memo (block_transaction b) = memo \<and>
      hash env (HashAddress (transfer_from t)) =
        hash env (HashAddress (binaryAddressFromPrincipal env (ic_caller env) 0)) \<and>
      hash env (HashAddress (transfer_to t)) =
        hash env (HashAddress (binaryAddressFromPrincipal env reservor 0)) \<and>
      transfer_amount_e8s t = reservePrice"
    by (intro bexI [of _ b] exI [of _ t]) simp_all
  with bs have parties: "\<exists>bs. query_blocks env block 1 = Answered bs \<and>
      (\<exists>b\<in>set bs. \<exists>t.
        tx_operation (block_transaction b) = Some (Transfer t) \<and>
        tx_memo (block_transaction b) = memo \<and>
        hash env (HashAddress (transfer_from t)) =
          hash env (HashAddress (binaryAddressFromPrincipal env (ic_caller env) 0)) \<and>
        hash env (HashAddress (transfer_to t)) =
          hash env (HashAddress (binaryAddressFromPrincipal env reservor 0)) \<and>
        transfer_amount_e8s t = reservePrice)"
    by blast
  have credit: "\<exists>don s'.
      completeReserveDonation env reservor donorId reservePrice block memo s =
        Returned (Ok don, s') \<and>
      donorProfileStorage s' =
        (donorProfileStorage s)(donor_id d \<mapsto>
           d\<lparr>donor_donationAmount := donor_donationAmount d + reservePrice\<rparr>) \<and>
      donation_amount don = donation_amount r \<and>
      donation_receiver don = donation_receiver r \<and>
      donation_donator don = donation_donator r"
    if "donor_donationAmount d + reservePrice < 2 ^ 64"
    using assms that by (simp add: complete_success)
  have refused: "completeReserveDonation env reservor donorId reservePrice block memo s =
      Thrown (Nat64OutOfRange (donor_donationAmount d + reservePrice))
        (s\<lparr>pendingReserves := (pendingReserves s)(memo := None)\<rparr>)"
    if "2 ^ 64 \<le> donor_donationAmount d + reservePrice"
    using assms that by (simp add: complete_out_of_range)
  from parties credit refused show ?thesis by blast
qed

theorem C10_credit_is_argument_witness:
  "pendingReserves state1 7 = Some reserve0 \<and>
   donorProfileStorage state1 ''D'' = Some donorD \<and>
   verifyPaymentInternal strangerEnv alice 250 5 7 = Inr True \<and>
   donor_donationAmount donorD + 250 < 2 ^ 64 \<and>
   ic_caller strangerEnv = carol \<and>
   donation_amount reserve0 = 100 \<and>
   donation_donator reserve0 = alice \<and>
   donation_receiver reserve0 = bob \<and>
   donor_donationAmount donorD = 0 \<and>
   (\<exists>don s'.
      completeReserveDonation strangerEnv alice ''D'' 250 5 7 state1 = Returned (Ok don, s') \<and>
      donorProfileStorage s' = [''D'' \<mapsto> donorD\<lparr>donor_donationAmount := 250\<rparr>] \<and>
      donation_amount don = 100) \<and>
   pendingReserves stateRich1 7 = Some reserve0 \<and>
   donorProfileStorage stateRich1 ''D'' = Some donorRich \<and>
   (2 :: nat) ^ 64 \<le> donor_donationAmount donorRich + 250 \<and>
   completeReserveDonation strangerEnv alice ''D'' 250 5 7 stateRich1 =
     Thrown (Nat64OutOfRange 18446744073709551865) stateRich2"
proof -
  have e: "ic_caller strangerEnv = carol" "donation_amount reserve0 = 100"
    "donation_donator reserve0 = alice" "donation_receiver reserve0 = bob"
    "donor_donationAmount donorD = 0" "donor_id donorD = ''D''"
    "donorProfileStorage state1 = [''D'' \<mapsto> donorD]"
    by (simp_all add: strangerEnv_def envWith_def reserve0_def donorD_def state1_def state0_def)
  have b: "donor_donationAmount donorD + 250 < 2 ^ 64" by (simp add: donorD_def)
  have k: "(2 :: nat) ^ 64 \<le> donor_donationAmount donorRich + 250"
    "donor_donationAmount donorRich + 250 = 18446744073709551865"
    "stateRich1\<lparr>pendingReserves := (pendingReserves stateRich1)(7 := None)\<rparr> = stateRich2"
    by (simp_all add: donorRich_def stateRich2_def stateRich1_def)
  show ?thesis
    using C10_credit_is_argument [OF state1_pending state1_donor stranger_verified]
      C10_credit_is_argument [OF stateRich1_pending stateRich1_donor stranger_verified]
      e b k state1_pending state1_donor stateRich1_pending stateRich1_donor stranger_verified
    by auto
qed

section \<open>Campaign ownership\<close>

text \<open>
  C9. A caller who is not the creator of a campaign gets \<open>Error ''Unauthorized''\<close> from
  \<^verbatim>\<open>updateCampaign\<close> and \<^verbatim>\<open>deleteCampaignById\<close>, and the state is unchanged. Not so
  for \<^verbatim>\<open>completeCampaign\<close>, which has no owner test: called by \<open>carol\<close> on the campaign
  that \<open>bob\<close> created, it returns the campaign with status \<open>Completed\<close> and stores it.
\<close>

theorem C9_completeCampaign_not_owner:
  "campaignStorage state0 ''X'' = Some campaignX \<and>
   campaign_creator campaignX = bob \<and>
   campaign_status campaignX = CampaignPending ''Pending'' \<and>
   ic_caller (exampleEnv carol 100) = carol \<and>
   carol \<noteq> bob \<and>
   completeCampaign (exampleEnv carol 100) ''X'' state0 =
     Returned (Ok campaignXCompleted,
       state0\<lparr>campaignStorage := [''X'' \<mapsto> campaignXCompleted]\<rparr>) \<and>
   campaignXCompleted \<noteq> campaignX \<and>
   updateCampaign (exampleEnv carol 100) ''X''
     \<lparr>cpayload_charityId = ''C'', cpayload_title = ''T'', cpayload_description = ''D'',
      cpayload_targetAmount = 1\<rparr> state0 = Returned (Err (Error ''Unauthorized''), state0) \<and>
   deleteCampaignById (exampleEnv carol 100) ''X'' state0 =
     Returned (Err (Error ''Unauthorized''), state0)"
proof -
  have s: "campaignStorage state0 ''X'' = Some campaignX" by (simp add: state0_def)
  have c: "campaign_creator campaignX = bob" "campaign_status campaignX = CampaignPending ''Pending''"
    by (simp_all add: campaignX_def)
  have e: "ic_caller (exampleEnv carol 100) = carol" by (simp add: exampleEnv_def envWith_def)
  have n: "carol \<noteq> bob" by (simp add: carol_def bob_def)
  have d: "campaignXCompleted \<noteq> campaignX"
  proof
    assume "campaignXCompleted = campaignX"
    then have "campaign_status campaignXCompleted = campaign_status campaignX" by simp
    then show False by (simp add: campaignXCompleted_def campaignX_def)
  qed
  have m: "(campaignStorage state0)(''X'' \<mapsto> campaignXCompleted) = [''X'' \<mapsto> campaignXCompleted]"
    by (simp add: state0_def)
  show ?thesis
    using s c e n d m completeCampaign_any_caller [OF s, of "exampleEnv carol 100"]
      updateCampaign_refuses [OF s] deleteCampaignById_refuses [OF s]
    by (simp add: campaignXCompleted_def)
qed


end
